theory Spec2Isabelle
  imports Main "HOL-Library.Product_Lexorder"
begin

section \<open>Tender triage: the data model of \<open>types/index.ts\<close>\<close>

text \<open>
  The component under study is \<open>components/TenderList.tsx\<close>. It receives a list of
  tenders, derives a filtered and sorted view of it (\<open>getFilteredTenders\<close>), counts
  the tabs (\<open>getViewStats\<close>), loads the detail of one tender on demand
  (\<open>openModal\<close>, \<open>closeModal\<close>) and normalises a loosely typed contact payload
  (\<open>parseContactInfo\<close>).

  JavaScript values that the component handles without a static shape (the contact
  payload is typed \<open>any\<close>) are values of \<open>jsvalue\<close>. Numbers are integers here:
  nothing below looks inside a number.
\<close>

datatype jsvalue =
    JUndefined
  | JNull
  | JBool bool
  | JNum int
  | JStr string
  | JArr "jsvalue list"
  | JObj "(string \<times> jsvalue) list"

datatype js_error = SyntaxError | TypeError | ReferenceError

text \<open>
  \<open>DateValidation\<close>: the two status fields are strings at run time (the server sends
  JSON), so a value outside the declared union is representable, as is a missing
  field (\<open>None\<close>).
\<close>

record DateValidation =
  deadline_status :: "string option"
  urgency_level :: "string option"
  days_until_deadline :: "int option"

record DetailedTenderInfo =
  detailed_title :: "string option"
  deadline :: "string option"
  contact_info :: jsvalue
  date_validation :: "DateValidation option"

record Tender =
  tender_id :: int
  title :: string
  url :: string
  description :: "string option"
  category :: string
  tender_date :: "string option"
  page_name :: "string option"
  is_processed :: bool
  is_notified :: bool
  created_at :: string
  detailed_info :: "DetailedTenderInfo option"

datatype ViewType = View_processed | View_all | View_active | View_expired

datatype SortType = Sort_newest | Sort_oldest | Sort_deadline | Sort_urgent

section \<open>The view, search and category filters\<close>

text \<open>\<open>t.detailed_info?.date_validation\<close>: optional chaining through an absent
  \<open>detailed_info\<close> gives \<open>undefined\<close>.\<close>

definition dateValidationOf :: "Tender \<Rightarrow> DateValidation option" where
  "dateValidationOf t =
     (case detailed_info t of None \<Rightarrow> None | Some d \<Rightarrow> date_validation d)"

text \<open>\<open>['active', 'urgent'].includes(dv.deadline_status || '')\<close>: a missing status
  becomes the empty string, which is not in the array.\<close>

definition statusIsLive :: "DateValidation \<Rightarrow> bool" where
  "statusIsLive dv =
     ((case deadline_status dv of None \<Rightarrow> [] | Some s \<Rightarrow> s) \<in> set [''active'', ''urgent''])"

definition keepActive :: "Tender \<Rightarrow> bool" where
  "keepActive t =
     (case dateValidationOf t of None \<Rightarrow> True | Some dv \<Rightarrow> statusIsLive dv)"

definition keepExpired :: "Tender \<Rightarrow> bool" where
  "keepExpired t =
     (case dateValidationOf t of None \<Rightarrow> False
      | Some dv \<Rightarrow> deadline_status dv = Some ''expired'')"

fun viewFilter :: "ViewType \<Rightarrow> Tender list \<Rightarrow> Tender list" where
  "viewFilter View_processed ts = filter is_processed ts"
| "viewFilter View_all ts = ts"
| "viewFilter View_active ts = filter keepActive ts"
| "viewFilter View_expired ts = filter keepExpired ts"

text \<open>
  \<open>String.prototype.toLowerCase\<close> on the ASCII letters (strings are byte lists here)
  and \<open>String.prototype.includes\<close> as a substring test.
\<close>

definition lowerChar :: "char \<Rightarrow> char" where
  "lowerChar c =
     (if 65 \<le> (of_char c :: nat) \<and> (of_char c :: nat) \<le> 90
      then char_of ((of_char c :: nat) + 32) else c)"

definition toLowerCase :: "string \<Rightarrow> string" where
  "toLowerCase s = map lowerChar s"

fun startsWith :: "string \<Rightarrow> string \<Rightarrow> bool" where
  "startsWith s [] = True"
| "startsWith [] (p # ps) = False"
| "startsWith (c # cs) (p # ps) = (c = p \<and> startsWith cs ps)"

fun includesStr :: "string \<Rightarrow> string \<Rightarrow> bool" where
  "includesStr [] p = (p = [])"
| "includesStr (c # cs) p = (startsWith (c # cs) p \<or> includesStr cs p)"

text \<open>\<open>tender.description && tender.description.toLowerCase().includes(...)\<close>: an
  absent or empty description is falsy.\<close>

definition matchesSearch :: "string \<Rightarrow> Tender \<Rightarrow> bool" where
  "matchesSearch searchTerm t =
     (includesStr (toLowerCase (title t)) (toLowerCase searchTerm) \<or>
      (case description t of None \<Rightarrow> False
       | Some d \<Rightarrow> d \<noteq> [] \<and> includesStr (toLowerCase d) (toLowerCase searchTerm)))"

definition searchFilter :: "string \<Rightarrow> Tender list \<Rightarrow> Tender list" where
  "searchFilter searchTerm ts =
     (if searchTerm \<noteq> [] then filter (matchesSearch searchTerm) ts else ts)"

definition categoryFilter :: "string \<Rightarrow> Tender list \<Rightarrow> Tender list" where
  "categoryFilter selectedCategory ts =
     (if selectedCategory \<noteq> ''all''
      then filter (\<lambda>t. category t = selectedCategory) ts else ts)"

section \<open>The comparator and the sort\<close>

definition getUrgencyScore :: "Tender \<Rightarrow> int" where
  "getUrgencyScore t =
     (case dateValidationOf t of None \<Rightarrow> 0
      | Some dv \<Rightarrow>
          (case urgency_level dv of None \<Rightarrow> 0
           | Some l \<Rightarrow>
               if l = [] then 0
               else if l = ''urgent'' then 5
               else if l = ''high'' then 4
               else if l = ''medium'' then 3
               else if l = ''low'' then 2
               else if l = ''expired'' then 1
               else 0))"

text \<open>
  \<open>new Date(s).getTime()\<close> is the time value in milliseconds, or \<open>NaN\<close> when the string
  is not recognised. Which strings are recognised is the engine's business, so the
  parser is a parameter \<open>parse\<close> of everything below, with \<open>None\<close> for \<open>NaN\<close>.
  A subtraction with a \<open>NaN\<close> operand is \<open>NaN\<close>. Time values are integers of
  magnitude at most \<open>8.64e15\<close>; only the sign of their difference is used.
\<close>

definition timeDiff :: "(string \<Rightarrow> int option) \<Rightarrow> string \<Rightarrow> string \<Rightarrow> int option" where
  "timeDiff parse x y =
     (case parse x of None \<Rightarrow> None
      | Some tx \<Rightarrow> (case parse y of None \<Rightarrow> None | Some ty \<Rightarrow> Some (tx - ty)))"

text \<open>\<open>a || b\<close> on optional strings: the left operand when it is truthy (present and
  non-empty), the right operand otherwise.\<close>

definition truthyStr :: "string option \<Rightarrow> bool" where
  "truthyStr v = (case v of None \<Rightarrow> False | Some s \<Rightarrow> s \<noteq> [])"

definition strOf :: "string option \<Rightarrow> string" where
  "strOf v = (case v of None \<Rightarrow> [] | Some s \<Rightarrow> s)"

definition effectiveDeadline :: "Tender \<Rightarrow> string option" where
  "effectiveDeadline t =
     (let d = (case detailed_info t of None \<Rightarrow> None | Some i \<Rightarrow> deadline i)
      in if truthyStr d then d else tender_date t)"

text \<open>
  The callback handed to \<open>filtered.sort\<close>. Its result is a number, \<open>None\<close> standing
  for \<open>NaN\<close>, or an exception.

  The callback is a closure: under \<open>urgent\<close> it reads the binding \<open>getUrgencyScore\<close>
  of the component body when it is called. That binding is a \<open>const\<close>, so it is
  either uninitialised (reading it throws \<open>ReferenceError\<close>) or holds the function;
  the parameter \<open>urgencyScore\<close> is its state at the time of the call.
\<close>

definition compareTenders ::
  "(string \<Rightarrow> int option) \<Rightarrow> (Tender \<Rightarrow> int) option \<Rightarrow> SortType \<Rightarrow> Tender \<Rightarrow> Tender
     \<Rightarrow> js_error + int option" where
  "compareTenders parse urgencyScore sortBy a b =
     (case sortBy of
        Sort_newest \<Rightarrow> Inr (timeDiff parse (created_at b) (created_at a))
      | Sort_oldest \<Rightarrow> Inr (timeDiff parse (created_at a) (created_at b))
      | Sort_deadline \<Rightarrow>
          (let deadlineA = effectiveDeadline a; deadlineB = effectiveDeadline b
           in if \<not> truthyStr deadlineA \<and> \<not> truthyStr deadlineB then Inr (Some 0)
              else if \<not> truthyStr deadlineA then Inr (Some 1)
              else if \<not> truthyStr deadlineB then Inr (Some (- 1))
              else Inr (timeDiff parse (strOf deadlineA) (strOf deadlineB)))
      | Sort_urgent \<Rightarrow>
          (case urgencyScore of
             None \<Rightarrow> Inl ReferenceError
           | Some score \<Rightarrow> Inr (Some (score b - score a))))"

text \<open>
  \<open>Array.prototype.sort\<close> (ECMAScript 2019 and later): the sort is stable, a
  comparator result of \<open>NaN\<close> counts as \<open>+0\<close> (abstract operation \<open>SortCompare\<close>), and
  an exception of the comparator ends the sort with that exception. The algorithm
  itself is the engine's; it is modelled by the stable insertion sort below.
  Whenever the comparator is a consistent ordering of the elements, every stable
  sort returns this same list; and every algorithm calls the comparator at least
  once on two or more elements and never on fewer. Where the comparator returns
  \<open>NaN\<close> for some pairs of three or more elements it is not a consistent ordering:
  the order is then implementation-defined, and an engine may return another
  arrangement of the same elements than this sort does.
\<close>

definition sortCompare ::
  "('a \<Rightarrow> 'a \<Rightarrow> js_error + int option) \<Rightarrow> 'a \<Rightarrow> 'a \<Rightarrow> js_error + int" where
  "sortCompare comparefn x y =
     (case comparefn x y of
        Inl e \<Rightarrow> Inl e
      | Inr None \<Rightarrow> Inr 0
      | Inr (Some v) \<Rightarrow> Inr v)"

fun insertBy :: "('a \<Rightarrow> 'a \<Rightarrow> js_error + int) \<Rightarrow> 'a \<Rightarrow> 'a list \<Rightarrow> js_error + 'a list" where
  "insertBy cmp x [] = Inr [x]"
| "insertBy cmp x (y # ys) =
     (case cmp x y of
        Inl e \<Rightarrow> Inl e
      | Inr v \<Rightarrow>
          if v \<le> 0 then Inr (x # y # ys)
          else (case insertBy cmp x ys of Inl e \<Rightarrow> Inl e | Inr zs \<Rightarrow> Inr (y # zs)))"

fun arraySort :: "('a \<Rightarrow> 'a \<Rightarrow> js_error + int option) \<Rightarrow> 'a list \<Rightarrow> js_error + 'a list" where
  "arraySort comparefn [] = Inr []"
| "arraySort comparefn (x # xs) =
     (case arraySort comparefn xs of
        Inl e \<Rightarrow> Inl e
      | Inr ys \<Rightarrow> insertBy (sortCompare comparefn) x ys)"

definition getFilteredTenders ::
  "(string \<Rightarrow> int option) \<Rightarrow> (Tender \<Rightarrow> int) option \<Rightarrow> Tender list \<Rightarrow> ViewType \<Rightarrow> string
     \<Rightarrow> string \<Rightarrow> SortType \<Rightarrow> js_error + Tender list" where
  "getFilteredTenders parse urgencyScore tenders selectedView searchTerm selectedCategory sortBy =
     arraySort (compareTenders parse urgencyScore sortBy)
       (categoryFilter selectedCategory
          (searchFilter searchTerm (viewFilter selectedView tenders)))"

text \<open>
  The component body runs top to bottom on every render. It calls
  \<open>getFilteredTenders()\<close> in the statement \<open>const filteredTenders = getFilteredTenders()\<close>,
  which stands before the statement \<open>const getUrgencyScore = ...\<close>; this is the only
  call. At that call the binding \<open>getUrgencyScore\<close> is uninitialised. (Where a build
  turns \<open>const\<close> into \<open>var\<close>, the binding holds \<open>undefined\<close> and the call throws
  \<open>TypeError\<close> instead.)
\<close>

definition filteredTenders ::
  "(string \<Rightarrow> int option) \<Rightarrow> Tender list \<Rightarrow> ViewType \<Rightarrow> string \<Rightarrow> string \<Rightarrow> SortType
     \<Rightarrow> js_error + Tender list" where
  "filteredTenders parse tenders selectedView searchTerm selectedCategory sortBy =
     getFilteredTenders parse None tenders selectedView searchTerm selectedCategory sortBy"

section \<open>The tab counters\<close>

record ViewStats =
  processed :: nat
  all_count :: nat
  active :: nat
  expired :: nat

definition countedActive :: "Tender \<Rightarrow> bool" where
  "countedActive t =
     (case dateValidationOf t of None \<Rightarrow> False | Some dv \<Rightarrow> statusIsLive dv)"

definition getViewStats :: "Tender list \<Rightarrow> ViewStats" where
  "getViewStats tenders =
     \<lparr> processed = length (filter is_processed tenders),
       all_count = length tenders,
       active = length (filter countedActive tenders),
       expired = length (filter keepExpired tenders) \<rparr>"

section \<open>The detail loader: \<open>openModal\<close> and \<open>closeModal\<close>\<close>

text \<open>
  The component keeps four pieces of modal state. \<open>openModal\<close> is an async function:
  it sets three of them, starts the request and suspends at \<open>await\<close>; its
  continuation runs later, when the request resolves or rejects, and has the tender
  it was called with in its closure. The world is therefore the modal state, the
  suspended continuations (one per outstanding request, identified by its tender, in
  the order of the calls) and the lines written by \<open>console.error\<close>: the one of
  \<open>apiRequest\<close> in \<open>services/api.ts\<close>, which logs the endpoint of the failed request
  and throws the error again, and the one of \<open>openModal\<close>'s \<open>catch\<close>.
\<close>

datatype logline = ApiRequestFailed int | FailedToLoadDetails

record world =
  isModalOpen :: bool
  selectedTender :: "Tender option"
  detailedTender :: "Tender option"
  loadingDetails :: bool
  pending :: "Tender list"
  console :: "logline list"

definition initial :: world where
  "initial =
     \<lparr> isModalOpen = False, selectedTender = None, detailedTender = None,
       loadingDetails = False, pending = [], console = [] \<rparr>"

text \<open>The part of \<open>openModal\<close> before \<open>await\<close>.\<close>

definition openModal :: "Tender \<Rightarrow> world \<Rightarrow> world" where
  "openModal tender w =
     w\<lparr> selectedTender := Some tender, isModalOpen := True, loadingDetails := True,
        pending := pending w @ [tender] \<rparr>"

definition closeModal :: "world \<Rightarrow> world" where
  "closeModal w =
     w\<lparr> isModalOpen := False, selectedTender := None, detailedTender := None,
        loadingDetails := False \<rparr>"

definition dropAt :: "nat \<Rightarrow> 'a list \<Rightarrow> 'a list" where
  "dropAt i xs = take i xs @ drop (Suc i) xs"

text \<open>The continuation of the \<open>i\<close>-th outstanding \<open>openModal\<close> call: the \<open>try\<close>
  branch on a response \<open>detailed\<close>, the \<open>catch\<close> branch on a rejection; \<open>finally\<close>
  clears the loading flag in both.\<close>

definition resolved :: "nat \<Rightarrow> Tender \<Rightarrow> world \<Rightarrow> world" where
  "resolved i detailed w =
     w\<lparr> detailedTender := Some detailed, loadingDetails := False,
        pending := dropAt i (pending w) \<rparr>"

definition rejected :: "nat \<Rightarrow> world \<Rightarrow> world" where
  "rejected i w =
     w\<lparr> console := console w @ [ApiRequestFailed (tender_id (pending w ! i)),
                                   FailedToLoadDetails],
        detailedTender := Some (pending w ! i), loadingDetails := False,
        pending := dropAt i (pending w) \<rparr>"

datatype event =
    OpenModal Tender
  | CloseModal
  | Resolved nat Tender
  | Rejected nat

text \<open>One event. A response can only arrive for an outstanding request: an event
  naming a request that does not exist is not a step (\<open>None\<close>).\<close>

fun step :: "world \<Rightarrow> event \<Rightarrow> world option" where
  "step w (OpenModal t) = Some (openModal t w)"
| "step w CloseModal = Some (closeModal w)"
| "step w (Resolved i d) = (if i < length (pending w) then Some (resolved i d w) else None)"
| "step w (Rejected i) = (if i < length (pending w) then Some (rejected i w) else None)"

fun run :: "world \<Rightarrow> event list \<Rightarrow> world option" where
  "run w [] = Some w"
| "run w (e # es) = (case step w e of None \<Rightarrow> None | Some w' \<Rightarrow> run w' es)"

text \<open>What the modal's content area renders (the conditional at the
  \<open>Content\<close> comment of the JSX): nothing when closed, the spinner while loading,
  the detail sections of \<open>detailedTender\<close>, or the "no detailed information" notice.
  There is no error screen among the alternatives.\<close>

datatype modalContent = Hidden | Spinner | Details Tender | NoDetails

definition modalView :: "world \<Rightarrow> modalContent" where
  "modalView w =
     (if \<not> isModalOpen w then Hidden
      else if loadingDetails w then Spinner
      else (case detailedTender w of Some d \<Rightarrow> Details d | None \<Rightarrow> NoDetails))"

section \<open>The contact normaliser: \<open>parseContactInfo\<close>\<close>

text \<open>
  \<open>JSON.parse\<close> either returns a value or throws \<open>SyntaxError\<close>; it is a parameter
  \<open>jsonParse\<close>. \<open>contactInfo || {}\<close> needs the truthiness of a value.
\<close>

fun truthy :: "jsvalue \<Rightarrow> bool" where
  "truthy JUndefined = False"
| "truthy JNull = False"
| "truthy (JBool b) = b"
| "truthy (JNum n) = (n \<noteq> 0)"
| "truthy (JStr s) = (s \<noteq> [])"
| "truthy (JArr xs) = True"
| "truthy (JObj kvs) = True"

fun parseContactInfo ::
  "(string \<Rightarrow> js_error + jsvalue) \<Rightarrow> jsvalue \<Rightarrow> js_error + jsvalue" where
  "parseContactInfo jsonParse (JStr s) =
     (case jsonParse s of
        Inr v \<Rightarrow> Inr v
      | Inl e \<Rightarrow> Inr (JObj [(''organization'', JStr s)]))"
| "parseContactInfo jsonParse contactInfo =
     Inr (if truthy contactInfo then contactInfo else JObj [])"

text \<open>
  The modal reads five properties of the normalised value: \<open>contactInfo.organization\<close>,
  \<open>.contact_person\<close>, \<open>.phone\<close>, \<open>.email\<close> and \<open>.address\<close>. Reading one of them
  throws \<open>TypeError\<close> on \<open>null\<close> and \<open>undefined\<close>, gives the property's value on an
  object that has it, and gives \<open>undefined\<close> otherwise: no prototype of a JSON value
  carries one of these five names. (An object is a list of its own properties with
  distinct names.)
\<close>

datatype contactField = Organization | Contact_person | Phone | Email | Address

fun fieldName :: "contactField \<Rightarrow> string" where
  "fieldName Organization = ''organization''"
| "fieldName Contact_person = ''contact_person''"
| "fieldName Phone = ''phone''"
| "fieldName Email = ''email''"
| "fieldName Address = ''address''"

fun readField :: "jsvalue \<Rightarrow> contactField \<Rightarrow> js_error + jsvalue" where
  "readField JUndefined f = Inl TypeError"
| "readField JNull f = Inl TypeError"
| "readField (JObj kvs) f =
     Inr (case map_of kvs (fieldName f) of None \<Rightarrow> JUndefined | Some v \<Rightarrow> v)"
| "readField v f = Inr JUndefined"

text \<open>
  Every JSON text starts, after white space, with one of \<open>{ [ " -\<close>, a digit, or
  the first letter of \<open>true\<close>, \<open>false\<close>, \<open>null\<close>; on any other text \<open>JSON.parse\<close>
  throws. \<open>jsonParseFrom rest\<close> is \<open>JSON.parse\<close> with that check made explicit and
  the remainder of the grammar left to \<open>rest\<close>.
\<close>

definition jsonWhitespace :: "char \<Rightarrow> bool" where
  "jsonWhitespace c = (c \<in> set [CHR '' '', CHR 0x09, CHR 0x0A, CHR 0x0D])"

definition jsonStart :: "char \<Rightarrow> bool" where
  "jsonStart c = (c \<in> set ''{[\"-0123456789tfn'')"

definition jsonParseFrom ::
  "(string \<Rightarrow> js_error + jsvalue) \<Rightarrow> string \<Rightarrow> js_error + jsvalue" where
  "jsonParseFrom rest s =
     (case dropWhile jsonWhitespace s of
        [] \<Rightarrow> Inl SyntaxError
      | c # cs \<Rightarrow> if jsonStart c then rest s else Inl SyntaxError)"

section \<open>Predicates used to state the properties\<close>

text \<open>The three filter stages keep exactly the tenders that pass this predicate.\<close>

definition viewKeeps :: "ViewType \<Rightarrow> Tender \<Rightarrow> bool" where
  "viewKeeps v t =
     (case v of View_processed \<Rightarrow> is_processed t | View_all \<Rightarrow> True
      | View_active \<Rightarrow> keepActive t | View_expired \<Rightarrow> keepExpired t)"

definition passesFilters :: "ViewType \<Rightarrow> string \<Rightarrow> string \<Rightarrow> Tender \<Rightarrow> bool" where
  "passesFilters v s c t =
     (viewKeeps v t \<and> (s = [] \<or> matchesSearch s t) \<and> (c = ''all'' \<or> category t = c))"

text \<open>
  The number \<open>SortCompare\<close> works with when the comparator returns one: the
  comparator's result with \<open>NaN\<close> read as zero, taken with the binding
  \<open>getUrgencyScore\<close> initialised, where the comparator throws under no sort.
\<close>

definition compareValue :: "(string \<Rightarrow> int option) \<Rightarrow> SortType \<Rightarrow> Tender \<Rightarrow> Tender \<Rightarrow> int" where
  "compareValue parse sortBy a b =
     (case sortCompare (compareTenders parse (Some getUrgencyScore) sortBy) a b of
        Inl e \<Rightarrow> 0
      | Inr v \<Rightarrow> v)"

text \<open>The sort for a comparator that cannot throw.\<close>

fun insertPure :: "('a \<Rightarrow> 'a \<Rightarrow> int) \<Rightarrow> 'a \<Rightarrow> 'a list \<Rightarrow> 'a list" where
  "insertPure cmp x [] = [x]"
| "insertPure cmp x (y # ys) =
     (if cmp x y \<le> 0 then x # y # ys else y # insertPure cmp x ys)"

definition sortPure :: "('a \<Rightarrow> 'a \<Rightarrow> int) \<Rightarrow> 'a list \<Rightarrow> 'a list" where
  "sortPure cmp xs = foldr (insertPure cmp) xs []"

text \<open>A tender has an effective deadline when \<open>deadlineA\<close> of the comparator is
  truthy.\<close>

definition hasDeadline :: "Tender \<Rightarrow> bool" where
  "hasDeadline t = truthyStr (effectiveDeadline t)"

text \<open>The order the deadline sort aims at, as a key: tenders with an effective
  deadline first, by its time value, then the tenders without one.\<close>

definition deadlineKey :: "(string \<Rightarrow> int option) \<Rightarrow> Tender \<Rightarrow> nat \<times> int" where
  "deadlineKey parse t =
     (if hasDeadline t
      then (0, case parse (strOf (effectiveDeadline t)) of None \<Rightarrow> 0 | Some v \<Rightarrow> v)
      else (1, 0))"

definition urgencyLevelOf :: "Tender \<Rightarrow> string option" where
  "urgencyLevelOf t =
     (case dateValidationOf t of None \<Rightarrow> None | Some dv \<Rightarrow> urgency_level dv)"

text \<open>The score table as the specification words it: five named levels, and \<open>0\<close>
  for anything else.\<close>

definition scoreTable :: "(string \<times> int) list" where
  "scoreTable =
     [(''urgent'', 5), (''high'', 4), (''medium'', 3), (''low'', 2), (''expired'', 1)]"

definition specUrgencyScore :: "string option \<Rightarrow> int" where
  "specUrgencyScore level =
     (case level of None \<Rightarrow> 0
      | Some l \<Rightarrow> (case map_of scoreTable l of None \<Rightarrow> 0 | Some n \<Rightarrow> n))"

definition isResponse :: "event \<Rightarrow> bool" where
  "isResponse e = (case e of Resolved i d \<Rightarrow> True | Rejected i \<Rightarrow> True | _ \<Rightarrow> False)"

section \<open>Sample data for the scenarios\<close>

text \<open>
  \<open>Date.parse\<close> on the date strings of the scenarios: the two ISO dates denote UTC
  midnight, in milliseconds since the epoch; \<open>TBD\<close> (like every other string the
  scenarios do not use) is not a date, so its time value is \<open>NaN\<close>.
\<close>

definition sampleParse :: "string \<Rightarrow> int option" where
  "sampleParse = map_of [(''2024-01-01'', 1704067200000), (''2024-06-01'', 1717200000000)]"

text \<open>
  \<open>JSON.parse\<close> on the texts of the scenarios: \<open>42\<close>, \<open>true\<close> and \<open>null\<close> are JSON
  texts for a number, a boolean and \<open>null\<close>; \<open>Ministry of Finance\<close> is no JSON text.
\<close>

definition sampleJsonParse :: "string \<Rightarrow> js_error + jsvalue" where
  "sampleJsonParse =
     jsonParseFrom
       (\<lambda>s. case map_of [(''42'', JNum 42), (''true'', JBool True), (''null'', JNull)] s of
               None \<Rightarrow> Inl SyntaxError
             | Some v \<Rightarrow> Inr v)"

definition sampleTender :: "int \<Rightarrow> DetailedTenderInfo option \<Rightarrow> Tender" where
  "sampleTender i d =
     \<lparr> tender_id = i, title = ''Audit services'', url = ''https://example.org/tender'',
       description = None, category = ''esg'', tender_date = None, page_name = None,
       is_processed = True, is_notified = False, created_at = ''2024-01-01'',
       detailed_info = d \<rparr>"

definition detailWith :: "string option \<Rightarrow> DateValidation option \<Rightarrow> DetailedTenderInfo option" where
  "detailWith dl dv =
     Some \<lparr> detailed_title = None, deadline = dl, contact_info = JUndefined,
            date_validation = dv \<rparr>"

definition validation :: "string option \<Rightarrow> string option \<Rightarrow> DateValidation option" where
  "validation status level =
     Some \<lparr> deadline_status = status, urgency_level = level, days_until_deadline = None \<rparr>"

text \<open>Scenarios A and B: an expired, an active and an unvalidated tender.\<close>

definition scenarioA :: "Tender list" where
  "scenarioA =
     [sampleTender 1 (detailWith None (validation (Some ''expired'') None)),
      sampleTender 2 (detailWith None (validation (Some ''active'') None)),
      sampleTender 3 None]"

text \<open>Scenario E: urgency levels low, urgent, expired, undefined.\<close>

definition scenarioE :: "Tender list" where
  "scenarioE =
     [sampleTender 1 (detailWith None (validation None (Some ''low''))),
      sampleTender 2 (detailWith None (validation None (Some ''urgent''))),
      sampleTender 3 (detailWith None (validation None (Some ''expired''))),
      sampleTender 4 (detailWith None (validation None None))]"

text \<open>Three tenders for the deadline order: a deadline that is not a date, a
  deadline in January, and no deadline at all.\<close>

definition tenderTBD :: Tender where
  "tenderTBD = sampleTender 1 (detailWith (Some ''TBD'') None)"

definition tenderJan :: Tender where
  "tenderJan = sampleTender 2 (detailWith (Some ''2024-01-01'') None)"

definition tenderNoDeadline :: Tender where
  "tenderNoDeadline = sampleTender 1 (detailWith None None)"

definition tenderJune :: Tender where
  "tenderJune = (sampleTender 3 None) \<lparr> tender_date := Some ''2024-06-01'' \<rparr>"

text \<open>A summary tender and the detail records a server could answer with.\<close>

definition summaryA :: Tender where
  "summaryA = sampleTender 5 None"

definition summaryB :: Tender where
  "summaryB = sampleTender 6 None"

definition detailA :: Tender where
  "detailA = sampleTender 5 (detailWith (Some ''2024-01-01'') None)"

definition detailB :: Tender where
  "detailB = sampleTender 6 (detailWith (Some ''2024-06-01'') None)"

section \<open>Facts about the sort\<close>

lemmas sample_defs = scenarioA_def scenarioE_def sampleTender_def detailWith_def
  validation_def sampleParse_def tenderTBD_def tenderJan_def tenderNoDeadline_def
  tenderJune_def summaryA_def summaryB_def detailA_def detailB_def

lemmas pipeline_defs = filteredTenders_def getFilteredTenders_def sortCompare_def
  compareTenders_def timeDiff_def categoryFilter_def searchFilter_def dateValidationOf_def
  keepActive_def keepExpired_def statusIsLive_def getUrgencyScore_def effectiveDeadline_def
  truthyStr_def strOf_def Let_def

lemmas loader_defs = initial_def openModal_def closeModal_def resolved_def rejected_def
  dropAt_def modalView_def

lemma insertBy_pure: "insertBy (\<lambda>x y. Inr (f x y)) x ys = Inr (insertPure f x ys)"
  by (induction ys) simp_all

lemma arraySort_pure:
  assumes "sortCompare c = (\<lambda>x y. Inr (f x y))"
  shows "arraySort c xs = Inr (sortPure f xs)"
  by (induction xs) (simp_all add: sortPure_def assms insertBy_pure)

lemma arraySort_short: "length xs < 2 \<Longrightarrow> arraySort c xs = Inr xs"
  by (cases xs) (auto simp: less_Suc_eq)

lemma insertBy_throws:
  "(\<forall>x y. cmp x y = Inl e) \<Longrightarrow> ys \<noteq> [] \<Longrightarrow> insertBy cmp x ys = Inl e"
  by (cases ys) simp_all

lemma arraySort_nonempty:
  "arraySort c xs = Inr ys \<Longrightarrow> xs \<noteq> [] \<Longrightarrow> ys \<noteq> []"
proof (induction xs arbitrary: ys)
  case Nil
  then show ?case by simp
next
  case (Cons x xs)
  then obtain zs where zs: "arraySort c xs = Inr zs"
    and ins: "insertBy (sortCompare c) x zs = Inr ys"
    by (auto split: sum.splits)
  show ?case
    using ins by (cases zs) (auto split: sum.splits if_splits)
qed

lemma arraySort_throws:
  assumes "\<forall>x y. sortCompare c x y = Inl e" and "2 \<le> length xs"
  shows "arraySort c xs = Inl e"
  using assms(2)
proof (induction xs)
  case Nil
  then show ?case by simp
next
  case (Cons x xs)
  show ?case
  proof (cases "arraySort c xs")
    case (Inl e')
    have "2 \<le> length xs"
      using Inl arraySort_short [of xs c] by (cases "length xs < 2") auto
    then have "arraySort c xs = Inl e" by (rule Cons.IH)
    then show ?thesis by simp
  next
    case (Inr ys)
    have "xs \<noteq> []" using Cons.prems by auto
    then have "ys \<noteq> []" using Inr arraySort_nonempty by blast
    then show ?thesis
      using Inr assms(1) by (simp add: insertBy_throws)
  qed
qed

lemma set_insertPure: "set (insertPure cmp x ys) = insert x (set ys)"
  by (induction ys) auto

lemma length_insertPure: "length (insertPure cmp x ys) = Suc (length ys)"
  by (induction ys) auto

lemma set_sortPure: "set (sortPure f xs) = set xs"
  unfolding sortPure_def by (induction xs) (simp_all add: set_insertPure)

lemma length_sortPure: "length (sortPure f xs) = length xs"
  unfolding sortPure_def by (induction xs) (simp_all add: length_insertPure)

lemma filter_insertPure_in:
  assumes "P x" and "\<forall>y\<in>set ys. P y \<longrightarrow> cmp x y \<le> 0"
  shows "filter P (insertPure cmp x ys) = x # filter P ys"
  using assms by (induction ys) auto

lemma filter_insertPure_out: "\<not> P x \<Longrightarrow> filter P (insertPure cmp x ys) = filter P ys"
  by (induction ys) auto

lemma filter_sortPure:
  assumes "\<forall>x y. P x \<longrightarrow> P y \<longrightarrow> f x y \<le> 0"
  shows "filter P (sortPure f xs) = filter P xs"
proof (induction xs)
  case Nil
  show ?case by (simp add: sortPure_def)
next
  case (Cons x xs)
  have step_eq: "sortPure f (x # xs) = insertPure f x (sortPure f xs)"
    by (simp add: sortPure_def)
  show ?case
  proof (cases "P x")
    case True
    have "\<forall>y\<in>set (sortPure f xs). P y \<longrightarrow> f x y \<le> 0"
      using assms True by blast
    with True Cons.IH show ?thesis
      by (simp add: step_eq filter_insertPure_in)
  next
    case False
    with Cons.IH show ?thesis
      by (simp add: step_eq filter_insertPure_out)
  qed
qed

lemma insertPure_is_insort:
  assumes "\<forall>y\<in>set ys. (cmp x y \<le> 0) = (k x \<le> k y)"
  shows "insertPure cmp x ys = insort_key k x ys"
  using assms by (induction ys) auto

lemma sorted_sortPure:
  fixes k :: "'a \<Rightarrow> 'b::linorder"
  assumes "\<forall>x\<in>set xs. \<forall>y\<in>set xs. (f x y \<le> 0) = (k x \<le> k y)"
  shows "sorted (map k (sortPure f xs))"
  using assms
proof (induction xs)
  case Nil
  show ?case by (simp add: sortPure_def)
next
  case (Cons x xs)
  have step_eq: "sortPure f (x # xs) = insertPure f x (sortPure f xs)"
    by (simp add: sortPure_def)
  have "\<forall>y\<in>set (sortPure f xs). (f x y \<le> 0) = (k x \<le> k y)"
    using Cons.prems by (simp add: set_sortPure)
  then have "insertPure f x (sortPure f xs) = insort_key k x (sortPure f xs)"
    by (rule insertPure_is_insort)
  moreover have "sorted (map k (sortPure f xs))"
    using Cons by simp
  ultimately show ?case
    by (simp add: step_eq sorted_insort_key)
qed

lemma sorted_wrt_insertPure_split:
  assumes "sorted_wrt (\<lambda>a b. A a \<or> \<not> A b) ys"
    and "\<forall>y\<in>set ys. (A x \<and> \<not> A y \<longrightarrow> cmp x y \<le> 0) \<and> (\<not> A x \<and> A y \<longrightarrow> 0 < cmp x y)"
  shows "sorted_wrt (\<lambda>a b. A a \<or> \<not> A b) (insertPure cmp x ys)"
  using assms
proof (induction ys)
  case Nil
  show ?case by simp
next
  case (Cons y ys)
  show ?case
  proof (cases "cmp x y \<le> 0")
    case True
    then have "A x \<or> \<not> A y" using Cons.prems(2) by auto
    then have "\<forall>z\<in>set (y # ys). A x \<or> \<not> A z"
      using Cons.prems(1) by auto
    with True Cons.prems(1) show ?thesis by simp
  next
    case False
    then have "A y \<or> \<not> A x" using Cons.prems(2) by auto
    moreover have "sorted_wrt (\<lambda>a b. A a \<or> \<not> A b) (insertPure cmp x ys)"
      using Cons by simp
    ultimately show ?thesis
      using False Cons.prems(1) by (auto simp: set_insertPure)
  qed
qed

lemma sorted_wrt_sortPure_split:
  assumes "\<forall>x y. (A x \<and> \<not> A y \<longrightarrow> f x y \<le> 0) \<and> (\<not> A x \<and> A y \<longrightarrow> 0 < f x y)"
  shows "sorted_wrt (\<lambda>a b. A a \<or> \<not> A b) (sortPure f xs)"
proof (induction xs)
  case Nil
  show ?case by (simp add: sortPure_def)
next
  case (Cons x xs)
  have step_eq: "sortPure f (x # xs) = insertPure f x (sortPure f xs)"
    by (simp add: sortPure_def)
  show ?case
    unfolding step_eq
    by (rule sorted_wrt_insertPure_split) (use Cons assms in auto)
qed

section \<open>Facts about the pipeline\<close>

lemma stages_as_filter:
  "categoryFilter c (searchFilter s (viewFilter v ts)) = filter (passesFilters v s c) ts"
  by (cases v)
     (auto simp: categoryFilter_def searchFilter_def passesFilters_def viewKeeps_def
           intro: filter_cong)

lemma sortCompare_value:
  assumes "sb \<noteq> Sort_urgent \<or> binding = Some getUrgencyScore"
  shows "sortCompare (compareTenders parse binding sb) = (\<lambda>a b. Inr (compareValue parse sb a b))"
  using assms
  by (cases sb)
     (auto simp: fun_eq_iff compareValue_def sortCompare_def compareTenders_def Let_def
           split: option.splits)

lemma sortCompare_uninitialised:
  "sortCompare (compareTenders parse None Sort_urgent) x y = Inl ReferenceError"
  by (simp add: sortCompare_def compareTenders_def)

lemma getFilteredTenders_returns:
  assumes "sb \<noteq> Sort_urgent \<or> binding = Some getUrgencyScore"
  shows "getFilteredTenders parse binding ts v s c sb =
           Inr (sortPure (compareValue parse sb) (filter (passesFilters v s c) ts))"
  unfolding getFilteredTenders_def stages_as_filter
  by (rule arraySort_pure) (rule sortCompare_value [OF assms])

lemma filteredTenders_returns:
  assumes "sb \<noteq> Sort_urgent"
  shows "filteredTenders parse ts v s c sb =
           Inr (sortPure (compareValue parse sb) (filter (passesFilters v s c) ts))"
  unfolding filteredTenders_def using assms by (simp add: getFilteredTenders_returns)

lemma filteredTenders_urgent:
  "filteredTenders parse ts v s c Sort_urgent =
     (if length (filter (passesFilters v s c) ts) < 2
      then Inr (filter (passesFilters v s c) ts) else Inl ReferenceError)"
proof (cases "length (filter (passesFilters v s c) ts) < 2")
  case True
  then show ?thesis
    by (simp add: filteredTenders_def getFilteredTenders_def stages_as_filter arraySort_short)
next
  case False
  then have "2 \<le> length (filter (passesFilters v s c) ts)" by simp
  with sortCompare_uninitialised
  have "arraySort (compareTenders parse None Sort_urgent) (filter (passesFilters v s c) ts)
          = Inl ReferenceError"
    by (intro arraySort_throws) auto
  with False show ?thesis
    by (simp add: filteredTenders_def getFilteredTenders_def stages_as_filter)
qed

lemma filteredTenders_set:
  assumes "filteredTenders parse ts v s c sb = Inr out"
  shows "set out = {t \<in> set ts. passesFilters v s c t}"
    and "length out = length (filter (passesFilters v s c) ts)"
proof -
  have "set out = {t \<in> set ts. passesFilters v s c t}
        \<and> length out = length (filter (passesFilters v s c) ts)"
  proof (cases "sb = Sort_urgent")
    case True
    with assms show ?thesis
      by (auto simp: filteredTenders_urgent split: if_splits)
  next
    case False
    with assms show ?thesis
      by (auto simp: filteredTenders_returns set_sortPure length_sortPure)
  qed
  then show "set out = {t \<in> set ts. passesFilters v s c t}"
    and "length out = length (filter (passesFilters v s c) ts)"
    by simp_all
qed

lemma compareValue_same: "compareValue parse sb a a = 0"
  by (cases sb)
     (auto simp: compareValue_def sortCompare_def compareTenders_def timeDiff_def Let_def
           split: option.splits)

lemma compareValue_zero_sym:
  "compareValue parse sb a b = 0 \<Longrightarrow> compareValue parse sb b a = 0"
  by (cases sb)
     (auto simp: compareValue_def sortCompare_def compareTenders_def timeDiff_def Let_def
           split: option.splits if_splits)

lemma keepActive_iff:
  "keepActive = (\<lambda>t. dateValidationOf t = None \<or>
      (\<exists>dv. dateValidationOf t = Some dv \<and>
         (deadline_status dv = Some ''active'' \<or> deadline_status dv = Some ''urgent'')))"
  by (rule ext) (auto simp: keepActive_def statusIsLive_def split: option.splits)

lemma keepExpired_iff:
  "keepExpired =
     (\<lambda>t. \<exists>dv. dateValidationOf t = Some dv \<and> deadline_status dv = Some ''expired'')"
  by (rule ext) (auto simp: keepExpired_def split: option.splits)

lemma countedActive_iff:
  "countedActive = (\<lambda>t. \<exists>dv. dateValidationOf t = Some dv \<and>
      (deadline_status dv = Some ''active'' \<or> deadline_status dv = Some ''urgent''))"
  by (rule ext) (auto simp: countedActive_def statusIsLive_def split: option.splits)

lemma getUrgencyScore_table: "getUrgencyScore t = specUrgencyScore (urgencyLevelOf t)"
  by (simp add: getUrgencyScore_def specUrgencyScore_def urgencyLevelOf_def scoreTable_def
           split: option.splits)

lemma deadline_compare_split:
  "(hasDeadline x \<and> \<not> hasDeadline y \<longrightarrow> compareValue parse Sort_deadline x y \<le> 0) \<and>
   (\<not> hasDeadline x \<and> hasDeadline y \<longrightarrow> 0 < compareValue parse Sort_deadline x y)"
  by (simp add: compareValue_def sortCompare_def compareTenders_def hasDeadline_def Let_def)

section \<open>The view filter\<close>

text \<open>
  Claim C3. The view stage of the derivation keeps, under the view \<open>active\<close>, exactly
  the tenders that have no date-validation data or whose deadline status is
  \<open>active\<close> or \<open>urgent\<close>, and under the view \<open>expired\<close> exactly the tenders that have
  date-validation data with deadline status \<open>expired\<close>; a tender without
  date-validation data is never in the expired view. With an empty search term and
  category \<open>all\<close> these are the members of the list the derivation returns; it
  returns one under the sorts \<open>newest\<close>, \<open>oldest\<close> and \<open>deadline\<close>.
\<close>

theorem view_selection:
  "viewFilter View_active ts =
     filter (\<lambda>t. dateValidationOf t = None \<or>
                 (\<exists>dv. dateValidationOf t = Some dv \<and>
                    (deadline_status dv = Some ''active'' \<or>
                     deadline_status dv = Some ''urgent''))) ts
   \<and> viewFilter View_expired ts =
     filter (\<lambda>t. \<exists>dv. dateValidationOf t = Some dv \<and>
                    deadline_status dv = Some ''expired'') ts
   \<and> (filteredTenders parse ts View_active [] ''all'' sb = Inr out \<longrightarrow>
        (t \<in> set out \<longleftrightarrow>
           t \<in> set ts \<and>
           (dateValidationOf t = None \<or>
            (\<exists>dv. dateValidationOf t = Some dv \<and>
               (deadline_status dv = Some ''active'' \<or>
                deadline_status dv = Some ''urgent'')))))
   \<and> (filteredTenders parse ts View_expired [] ''all'' sb = Inr out \<longrightarrow>
        (t \<in> set out \<longleftrightarrow>
           t \<in> set ts \<and>
           (\<exists>dv. dateValidationOf t = Some dv \<and> deadline_status dv = Some ''expired'')))
   \<and> (sb \<noteq> Sort_urgent \<longrightarrow> (\<exists>res. filteredTenders parse ts view [] ''all'' sb = Inr res))"
proof -
  have "viewFilter View_active ts = filter keepActive ts"
    and "viewFilter View_expired ts = filter keepExpired ts"
    by simp_all
  moreover have "t \<in> set out \<longleftrightarrow> t \<in> set ts \<and> keepActive t"
    if "filteredTenders parse ts View_active [] ''all'' sb = Inr out"
    using filteredTenders_set(1) [OF that]
    by (simp add: passesFilters_def viewKeeps_def)
  moreover have "t \<in> set out \<longleftrightarrow> t \<in> set ts \<and> keepExpired t"
    if "filteredTenders parse ts View_expired [] ''all'' sb = Inr out"
    using filteredTenders_set(1) [OF that]
    by (simp add: passesFilters_def viewKeeps_def)
  moreover have "\<exists>res. filteredTenders parse ts view [] ''all'' sb = Inr res"
    if "sb \<noteq> Sort_urgent"
    using that by (simp add: filteredTenders_returns)
  ultimately show ?thesis
    unfolding keepActive_iff keepExpired_iff by blast
qed

text \<open>Scenarios A and B: of an expired, an active and an unvalidated tender the
  active view keeps the last two and the expired view the first.\<close>

theorem view_selection_witness:
  "map tender_id (viewFilter View_active scenarioA) = [2, 3]
   \<and> map tender_id (viewFilter View_expired scenarioA) = [1]
   \<and> filteredTenders sampleParse scenarioA View_active [] ''all'' Sort_newest
       = Inr [sampleTender 2 (detailWith None (validation (Some ''active'') None)),
              sampleTender 3 None]
   \<and> filteredTenders sampleParse scenarioA View_expired [] ''all'' Sort_newest
       = Inr [sampleTender 1 (detailWith None (validation (Some ''expired'') None))]
   \<and> dateValidationOf (sampleTender 3 None) = None"
proof -
  have act: "filteredTenders sampleParse scenarioA View_active [] ''all'' Sort_newest
       = Inr [sampleTender 2 (detailWith None (validation (Some ''active'') None)),
              sampleTender 3 None]"
    by (simp add: sample_defs pipeline_defs)
  have exp: "filteredTenders sampleParse scenarioA View_expired [] ''all'' Sort_newest
       = Inr [sampleTender 1 (detailWith None (validation (Some ''expired'') None))]"
    by (simp add: sample_defs pipeline_defs)
  have none: "dateValidationOf (sampleTender 3 None) = None"
    by (simp add: sampleTender_def dateValidationOf_def)
  have ids: "map tender_id (filter keepActive scenarioA) = [2, 3]"
    "map tender_id (filter keepExpired scenarioA) = [1]"
    by (simp_all add: sample_defs pipeline_defs)
  show ?thesis
    using view_selection [of scenarioA sampleParse Sort_newest _ "sampleTender 3 None"]
      act exp none ids
    by simp
qed

section \<open>The tab counter and the active view\<close>

text \<open>
  Claim C10. The \<open>Active\<close> tab counts only the tenders that have date-validation
  data with deadline status \<open>active\<close> or \<open>urgent\<close>, while the active view also keeps
  every tender without date-validation data. So whenever the collection holds a
  tender without date-validation data, the count on the tab is strictly smaller than
  the number of tenders the active view keeps, which is the length of the list the
  derivation returns for the active view with an empty search and category \<open>all\<close>;
  it returns one under the sorts \<open>newest\<close>, \<open>oldest\<close> and \<open>deadline\<close>.
\<close>

theorem active_count_below_active_view:
  "active (getViewStats ts) =
      length (filter (\<lambda>t. \<exists>dv. dateValidationOf t = Some dv \<and>
                    (deadline_status dv = Some ''active'' \<or>
                     deadline_status dv = Some ''urgent'')) ts)
   \<and> ((\<exists>t\<in>set ts. dateValidationOf t = None) \<longrightarrow>
        active (getViewStats ts) < length (viewFilter View_active ts))
   \<and> ((\<exists>t\<in>set ts. dateValidationOf t = None) \<and>
      filteredTenders parse ts View_active [] ''all'' sb = Inr out \<longrightarrow>
        active (getViewStats ts) < length out)
   \<and> (sb \<noteq> Sort_urgent \<longrightarrow>
        (\<exists>res. filteredTenders parse ts View_active [] ''all'' sb = Inr res))"
proof -
  have keep: "keepActive t = (dateValidationOf t = None \<or> countedActive t)" for t
    by (auto simp: keepActive_def countedActive_def split: option.splits)
  have excl: "dateValidationOf t = None \<Longrightarrow> \<not> countedActive t" for t
    by (simp add: countedActive_def)
  have len: "length out = length (filter keepActive ts)"
    if "filteredTenders parse ts View_active [] ''all'' sb = Inr out"
  proof -
    have "passesFilters View_active [] ''all'' = keepActive"
      by (rule ext) (simp add: passesFilters_def viewKeeps_def)
    with filteredTenders_set(2) [OF that] show ?thesis by simp
  qed
  have strict: "length (filter countedActive xs) < length (filter keepActive xs)"
    if "\<exists>t\<in>set xs. dateValidationOf t = None" for xs
    using that
  proof (induction xs)
    case Nil
    then show ?case by simp
  next
    case (Cons x xs)
    have le: "length (filter countedActive xs) \<le> length (filter keepActive xs)"
      by (induction xs) (auto simp: keep)
    show ?case
    proof (cases "dateValidationOf x = None")
      case True
      then have "keepActive x" and "\<not> countedActive x"
        by (simp_all add: keep excl)
      then show ?thesis using le by simp
    next
      case False
      then have "\<exists>t\<in>set xs. dateValidationOf t = None"
        using Cons.prems by auto
      then have "length (filter countedActive xs) < length (filter keepActive xs)"
        by (rule Cons.IH)
      moreover have "keepActive x = countedActive x"
        using False by (auto simp: keep)
      ultimately show ?thesis by simp
    qed
  qed
  have count: "active (getViewStats ts) = length (filter countedActive ts)"
    by (simp add: getViewStats_def)
  have returns: "\<exists>res. filteredTenders parse ts View_active [] ''all'' sb = Inr res"
    if "sb \<noteq> Sort_urgent"
    using that by (simp add: filteredTenders_returns)
  show ?thesis
    using strict [of ts] len returns
    by (auto simp: count countedActive_iff [symmetric])
qed

text \<open>On scenario A the tab says 1 and the active view shows 2 tenders.\<close>

theorem active_count_below_active_view_witness:
  "(\<exists>t\<in>set scenarioA. dateValidationOf t = None)
   \<and> active (getViewStats scenarioA) = 1
   \<and> filteredTenders sampleParse scenarioA View_active [] ''all'' Sort_newest
       = Inr [sampleTender 2 (detailWith None (validation (Some ''active'') None)),
              sampleTender 3 None]
   \<and> active (getViewStats scenarioA)
       < length [sampleTender 2 (detailWith None (validation (Some ''active'') None)),
                 sampleTender 3 None]"
proof -
  have ex: "\<exists>t\<in>set scenarioA. dateValidationOf t = None"
    by (simp add: scenarioA_def sampleTender_def dateValidationOf_def)
  have one: "active (getViewStats scenarioA) = 1"
    by (simp add: getViewStats_def scenarioA_def sampleTender_def detailWith_def
                  validation_def dateValidationOf_def countedActive_def statusIsLive_def)
  have act: "filteredTenders sampleParse scenarioA View_active [] ''all'' Sort_newest
       = Inr [sampleTender 2 (detailWith None (validation (Some ''active'') None)),
              sampleTender 3 None]"
    by (simp add: sample_defs pipeline_defs)
  show ?thesis
    using active_count_below_active_view [of scenarioA sampleParse Sort_newest] ex one act
    by blast
qed

section \<open>Ties\<close>

text \<open>
  Where the comparator returns \<open>NaN\<close> for no two tenders of the collection (every
  date it compares parses) and the derivation returns a list, two tenders of that
  list whose sort keys compare equal stand in it in the same relative order as in
  the input collection: the returned list and the input, both restricted to the two
  tenders, are the same list. The derivation returns a list under the sorts
  \<open>newest\<close>, \<open>oldest\<close> and \<open>deadline\<close>.
\<close>

lemma ties_keep_input_order:
  assumes ret: "filteredTenders parse tenders view searchTerm cat sortBy = Inr out"
    and numbers: "\<forall>x\<in>set tenders. \<forall>y\<in>set tenders.
                    compareTenders parse (Some getUrgencyScore) sortBy x y \<noteq> Inr None"
    and tie: "compareValue parse sortBy a b = 0"
    and a: "a \<in> set out" and b: "b \<in> set out"
  shows "filter (\<lambda>t. t = a \<or> t = b) out = filter (\<lambda>t. t = a \<or> t = b) tenders"
proof -
  let ?P = "\<lambda>t. t = a \<or> t = b"
  let ?K = "passesFilters view searchTerm cat"
  have "?K a" and "?K b"
    using a b filteredTenders_set(1) [OF ret] by simp_all
  then have restrict: "filter ?P (filter ?K tenders) = filter ?P tenders"
    by (auto intro: filter_cong)
  show ?thesis
  proof (cases "sortBy = Sort_urgent")
    case True
    then have "out = filter ?K tenders"
      using ret by (auto simp: filteredTenders_urgent split: if_splits)
    with restrict show ?thesis by simp
  next
    case False
    then have out: "out = sortPure (compareValue parse sortBy) (filter ?K tenders)"
      using ret by (simp add: filteredTenders_returns)
    have "\<forall>x y. ?P x \<longrightarrow> ?P y \<longrightarrow> compareValue parse sortBy x y \<le> 0"
      using tie compareValue_zero_sym [OF tie] compareValue_same [of parse sortBy] by auto
    then have "filter ?P (sortPure (compareValue parse sortBy) (filter ?K tenders))
                 = filter ?P (filter ?K tenders)"
      by (rule filter_sortPure)
    with out restrict show ?thesis by simp
  qed
qed

text \<open>
  Claim C9, at a failing input. Two tenders with the same urgency score (neither
  has date-validation data), sorted by \<open>urgent\<close>: the claim has them come out in input
  order; the derivation throws, because the comparator reads \<open>getUrgencyScore\<close>
  before the component body has initialised it. With the binding initialised the
  same call returns the two tenders in input order.
\<close>

theorem tied_pair_under_urgent_throws:
  "getUrgencyScore (sampleTender 1 None) = getUrgencyScore (sampleTender 2 None)
   \<and> filteredTenders sampleParse [sampleTender 1 None, sampleTender 2 None]
        View_all [] ''all'' Sort_urgent = Inl ReferenceError
   \<and> getFilteredTenders sampleParse (Some getUrgencyScore)
        [sampleTender 1 None, sampleTender 2 None] View_all [] ''all'' Sort_urgent
       = Inr [sampleTender 1 None, sampleTender 2 None]"
  by (simp add: sample_defs pipeline_defs)

section \<open>The urgency score and the urgency sort\<close>

text \<open>
  The score of a tender is 5 for \<open>urgent\<close>, 4 for \<open>high\<close>, 3 for \<open>medium\<close>, 2 for \<open>low\<close>,
  1 for \<open>expired\<close>, and 0 when the date validation or the urgency level is missing or
  is none of the five. Called with the binding \<open>getUrgencyScore\<close> initialised, the
  derivation under \<open>urgent\<close> returns a list in descending order of the score.
\<close>

lemma urgency_order_when_initialised:
  "getUrgencyScore t = specUrgencyScore (urgencyLevelOf t)
   \<and> (\<exists>out. getFilteredTenders parse (Some getUrgencyScore) ts view searchTerm cat Sort_urgent
                = Inr out
            \<and> sorted_wrt (\<lambda>a b. getUrgencyScore b \<le> getUrgencyScore a) out)"
proof -
  let ?k = "\<lambda>t. - getUrgencyScore t"
  let ?xs = "filter (passesFilters view searchTerm cat) ts"
  have "\<forall>x\<in>set ?xs. \<forall>y\<in>set ?xs. (compareValue parse Sort_urgent x y \<le> 0) = (?k x \<le> ?k y)"
    by (simp add: compareValue_def sortCompare_def compareTenders_def)
  then have "sorted (map ?k (sortPure (compareValue parse Sort_urgent) ?xs))"
    by (rule sorted_sortPure)
  then have "sorted_wrt (\<lambda>a b. getUrgencyScore b \<le> getUrgencyScore a)
               (sortPure (compareValue parse Sort_urgent) ?xs)"
    by (simp add: sorted_map)
  then show ?thesis
    by (simp add: getFilteredTenders_returns getUrgencyScore_table)
qed

text \<open>
  Claim C5, at a failing input. Scenario E (urgency levels low, urgent, expired,
  undefined; scores 2, 5, 1, 0), sorted by \<open>urgent\<close>: the claim has the list come out
  as urgent, low, expired, undefined. The derivation throws: it runs before the
  component body has initialised \<open>getUrgencyScore\<close>, and the comparator's first call
  reads that binding. With the binding initialised the same call returns the order
  the claim states.
\<close>

theorem urgent_sort_throws:
  "map getUrgencyScore scenarioE = [2, 5, 1, 0]
   \<and> filteredTenders sampleParse scenarioE View_all [] ''all'' Sort_urgent
       = Inl ReferenceError
   \<and> map_sum id (map urgencyLevelOf)
        (getFilteredTenders sampleParse (Some getUrgencyScore) scenarioE
           View_all [] ''all'' Sort_urgent)
       = Inr [Some ''urgent'', Some ''low'', Some ''expired'', None]"
  by (simp add: scenarioE_def sampleTender_def detailWith_def validation_def
                urgencyLevelOf_def pipeline_defs)

section \<open>The deadline sort\<close>

text \<open>
  Claim C6. Under the sort \<open>deadline\<close> the key of a tender is its effective deadline:
  \<open>detailed_info.deadline\<close> when that is present (a non-empty string, which is what
  the source's \<open>||\<close> tests), and \<open>tender_date\<close> otherwise. The derivation returns a
  list in which no tender without an effective deadline stands before a tender with
  one. When exactly one of two tenders lacks an effective deadline the comparator
  puts the one that has it first, in both argument orders. For two tenders whose
  effective deadlines parse, the comparator is the difference of the two time
  values, whichever field they came from; and when every effective deadline of the
  collection parses, the returned list is in ascending order of the time value, the
  tenders without a deadline last.
\<close>

theorem deadline_order:
  "(detailed_info t = Some i \<and> deadline i = Some d \<and> d \<noteq> [] \<longrightarrow> effectiveDeadline t = Some d)
   \<and> (detailed_info t = None \<longrightarrow> effectiveDeadline t = tender_date t)
   \<and> (detailed_info t = Some i \<and> (deadline i = None \<or> deadline i = Some [])
        \<longrightarrow> effectiveDeadline t = tender_date t)
   \<and> (\<exists>out. filteredTenders parse ts view searchTerm cat Sort_deadline = Inr out
        \<and> sorted_wrt (\<lambda>a b. hasDeadline a \<or> \<not> hasDeadline b) out
        \<and> ((\<forall>x\<in>set ts. hasDeadline x \<longrightarrow> parse (strOf (effectiveDeadline x)) \<noteq> None) \<longrightarrow>
             sorted (map (deadlineKey parse) out)))
   \<and> (hasDeadline a \<and> \<not> hasDeadline b \<longrightarrow>
        compareTenders parse binding Sort_deadline a b = Inr (Some (- 1)) \<and>
        compareTenders parse binding Sort_deadline b a = Inr (Some 1))
   \<and> (hasDeadline a \<and> hasDeadline b \<and>
      parse (strOf (effectiveDeadline a)) = Some ta \<and>
      parse (strOf (effectiveDeadline b)) = Some tb \<longrightarrow>
        compareTenders parse binding Sort_deadline a b = Inr (Some (ta - tb)))"
proof -
  let ?xs = "filter (passesFilters view searchTerm cat) ts"
  let ?out = "sortPure (compareValue parse Sort_deadline) ?xs"
  have field: "detailed_info t = Some i \<and> deadline i = Some d \<and> d \<noteq> []
                 \<longrightarrow> effectiveDeadline t = Some d"
    by (simp add: effectiveDeadline_def truthyStr_def)
  have none: "detailed_info t = None \<longrightarrow> effectiveDeadline t = tender_date t"
    by (simp add: effectiveDeadline_def truthyStr_def)
  have fall: "detailed_info t = Some i \<and> (deadline i = None \<or> deadline i = Some [])
                 \<longrightarrow> effectiveDeadline t = tender_date t"
    by (auto simp: effectiveDeadline_def truthyStr_def)
  have ret: "filteredTenders parse ts view searchTerm cat Sort_deadline = Inr ?out"
    by (simp add: filteredTenders_returns)
  have split: "sorted_wrt (\<lambda>a b. hasDeadline a \<or> \<not> hasDeadline b) ?out"
    by (rule sorted_wrt_sortPure_split) (use deadline_compare_split in blast)
  have asc: "sorted (map (deadlineKey parse) ?out)"
    if ok: "\<forall>x\<in>set ts. hasDeadline x \<longrightarrow> parse (strOf (effectiveDeadline x)) \<noteq> None"
  proof -
    have "(compareValue parse Sort_deadline x y \<le> 0)
            = (deadlineKey parse x \<le> deadlineKey parse y)"
      if "x \<in> set ts" and "y \<in> set ts" for x y
      using ok that
      by (auto simp: compareValue_def sortCompare_def compareTenders_def timeDiff_def
                     deadlineKey_def hasDeadline_def Let_def split: option.splits)
    then have "\<forall>x\<in>set ?xs. \<forall>y\<in>set ?xs.
            (compareValue parse Sort_deadline x y \<le> 0)
              = (deadlineKey parse x \<le> deadlineKey parse y)"
      by simp
    then show ?thesis
      by (rule sorted_sortPure)
  qed
  have one: "hasDeadline a \<and> \<not> hasDeadline b \<longrightarrow>
        compareTenders parse binding Sort_deadline a b = Inr (Some (- 1)) \<and>
        compareTenders parse binding Sort_deadline b a = Inr (Some 1)"
    by (simp add: compareTenders_def hasDeadline_def Let_def)
  have both: "hasDeadline a \<and> hasDeadline b \<and>
      parse (strOf (effectiveDeadline a)) = Some ta \<and>
      parse (strOf (effectiveDeadline b)) = Some tb \<longrightarrow>
        compareTenders parse binding Sort_deadline a b = Inr (Some (ta - tb))"
    by (simp add: compareTenders_def hasDeadline_def timeDiff_def Let_def)
  show ?thesis
    using field none fall ret split asc one both by blast
qed

text \<open>A January deadline held by \<open>detailed_info.deadline\<close>, a June date held by
  \<open>tender_date\<close> and a tender with neither: the derived list is January, June, none.\<close>

theorem deadline_order_witness:
  "effectiveDeadline tenderJan = Some ''2024-01-01''
   \<and> effectiveDeadline tenderJune = Some ''2024-06-01''
   \<and> \<not> hasDeadline tenderNoDeadline
   \<and> sampleParse (strOf (effectiveDeadline tenderJan)) = Some 1704067200000
   \<and> sampleParse (strOf (effectiveDeadline tenderJune)) = Some 1717200000000
   \<and> compareTenders sampleParse None Sort_deadline tenderJan tenderJune
        = Inr (Some (1704067200000 - 1717200000000))
   \<and> compareTenders sampleParse None Sort_deadline tenderJune tenderNoDeadline
        = Inr (Some (- 1))
   \<and> filteredTenders sampleParse [tenderNoDeadline, tenderJune, tenderJan]
        View_all [] ''all'' Sort_deadline = Inr [tenderJan, tenderJune, tenderNoDeadline]
   \<and> sorted (map (deadlineKey sampleParse) [tenderJan, tenderJune, tenderNoDeadline])"
proof -
  have jan: "effectiveDeadline tenderJan = Some ''2024-01-01''"
    and june: "effectiveDeadline tenderJune = Some ''2024-06-01''"
    and nodl: "effectiveDeadline tenderNoDeadline = None"
    by (simp_all add: sample_defs effectiveDeadline_def truthyStr_def)
  have has: "hasDeadline tenderJan" "hasDeadline tenderJune" "\<not> hasDeadline tenderNoDeadline"
    by (simp_all add: hasDeadline_def jan june nodl truthyStr_def)
  have pj: "sampleParse (strOf (effectiveDeadline tenderJan)) = Some 1704067200000"
    and pu: "sampleParse (strOf (effectiveDeadline tenderJune)) = Some 1717200000000"
    by (simp_all add: jan june strOf_def sampleParse_def)
  have ok: "\<forall>x\<in>set [tenderNoDeadline, tenderJune, tenderJan].
         hasDeadline x \<longrightarrow> sampleParse (strOf (effectiveDeadline x)) \<noteq> None"
    using has pj pu by simp
  have out: "filteredTenders sampleParse [tenderNoDeadline, tenderJune, tenderJan]
        View_all [] ''all'' Sort_deadline = Inr [tenderJan, tenderJune, tenderNoDeadline]"
    by (simp add: filteredTenders_def getFilteredTenders_def sortCompare_def
                  compareTenders_def timeDiff_def categoryFilter_def searchFilter_def Let_def
                  jan june nodl truthyStr_def strOf_def sampleParse_def)
  note inst = deadline_order [where parse = sampleParse and a = tenderJan and b = tenderJune
      and ta = 1704067200000 and tb = 1717200000000 and binding = None
      and ts = "[tenderNoDeadline, tenderJune, tenderJan]" and view = View_all
      and searchTerm = "[]" and cat = "''all''"]
  note inst2 = deadline_order [where parse = sampleParse and a = tenderJune
      and b = tenderNoDeadline and binding = None]
  have cmp: "compareTenders sampleParse None Sort_deadline tenderJan tenderJune
        = Inr (Some (1704067200000 - 1717200000000))"
    using inst has pj pu by blast
  have first: "compareTenders sampleParse None Sort_deadline tenderJune tenderNoDeadline
        = Inr (Some (- 1))"
    using inst2 has by blast
  have asc: "sorted (map (deadlineKey sampleParse) [tenderJan, tenderJune, tenderNoDeadline])"
    using inst ok out by auto
  show ?thesis
    using jan june has(3) pj pu cmp first out asc by blast
qed

section \<open>Dates that do not parse\<close>

text \<open>
  Claim C4, as stated, at a concrete input. The claim has a tender whose deadline
  does not parse sort to the end, like a tender without a deadline. \<open>TBD\<close> does not
  parse; the tender holding it stays in front of the tender with the January
  deadline, whereas the same tender without its deadline is moved behind it.
\<close>

theorem unparseable_deadline_not_last:
  "sampleParse ''TBD'' = None
   \<and> filteredTenders sampleParse [tenderTBD, tenderJan] View_all [] ''all'' Sort_deadline
       = Inr [tenderTBD, tenderJan]
   \<and> filteredTenders sampleParse [tenderNoDeadline, tenderJan] View_all [] ''all'' Sort_deadline
       = Inr [tenderJan, tenderNoDeadline]"
  by (simp add: sample_defs pipeline_defs)

text \<open>
  Claim C4, amended. Under the sorts \<open>newest\<close>, \<open>oldest\<close> and \<open>deadline\<close> the
  derivation returns a list for every collection, whatever its date strings: the
  time value of an unrecognised string is \<open>NaN\<close>, and nothing throws. A date that
  fails to parse is not treated as absent: the comparator's result is \<open>NaN\<close>, which
  the sort reads as a tie. Under \<open>deadline\<close> a tender whose effective deadline fails
  to parse ties with every tender that has an effective deadline and is ordered
  before every tender that has none; of two tenders the derivation leaves it in
  front of a tender with a deadline and moves it in front of a tender without one.
  Under \<open>newest\<close> and \<open>oldest\<close> a tender whose \<open>created_at\<close> fails to parse ties with
  every tender.
\<close>

theorem unparseable_date_is_a_tie:
  "(sb \<noteq> Sort_urgent \<longrightarrow>
      (\<exists>out. filteredTenders parse ts view searchTerm cat sb = Inr out
            \<and> set out \<subseteq> set ts \<and> length out \<le> length ts))
   \<and> (hasDeadline a \<and> parse (strOf (effectiveDeadline a)) = None \<and> hasDeadline b \<longrightarrow>
      compareTenders parse binding Sort_deadline a b = Inr None \<and>
      compareTenders parse binding Sort_deadline b a = Inr None \<and>
      sortCompare (compareTenders parse binding Sort_deadline) a b = Inr 0 \<and>
      sortCompare (compareTenders parse binding Sort_deadline) b a = Inr 0 \<and>
      filteredTenders parse [a, b] View_all [] ''all'' Sort_deadline = Inr [a, b])
   \<and> (hasDeadline a \<and> parse (strOf (effectiveDeadline a)) = None \<and> \<not> hasDeadline b \<longrightarrow>
      compareTenders parse binding Sort_deadline a b = Inr (Some (- 1)) \<and>
      compareTenders parse binding Sort_deadline b a = Inr (Some 1) \<and>
      filteredTenders parse [b, a] View_all [] ''all'' Sort_deadline = Inr [a, b])
   \<and> (parse (created_at a) = None \<longrightarrow>
      compareTenders parse binding Sort_newest a b = Inr None \<and>
      compareTenders parse binding Sort_newest b a = Inr None \<and>
      compareTenders parse binding Sort_oldest a b = Inr None \<and>
      compareTenders parse binding Sort_oldest b a = Inr None)"
proof -
  have total: "\<exists>out. filteredTenders parse ts view searchTerm cat sb = Inr out
            \<and> set out \<subseteq> set ts \<and> length out \<le> length ts"
    if "sb \<noteq> Sort_urgent"
    using that by (auto simp: filteredTenders_returns set_sortPure length_sortPure)
  have tie: "hasDeadline a \<and> parse (strOf (effectiveDeadline a)) = None \<and> hasDeadline b \<longrightarrow>
      compareTenders parse binding Sort_deadline a b = Inr None \<and>
      compareTenders parse binding Sort_deadline b a = Inr None \<and>
      sortCompare (compareTenders parse binding Sort_deadline) a b = Inr 0 \<and>
      sortCompare (compareTenders parse binding Sort_deadline) b a = Inr 0 \<and>
      filteredTenders parse [a, b] View_all [] ''all'' Sort_deadline = Inr [a, b]"
    by (auto simp: filteredTenders_def getFilteredTenders_def categoryFilter_def
                   searchFilter_def sortCompare_def compareTenders_def timeDiff_def
                   hasDeadline_def Let_def
             split: option.splits)
  have before: "hasDeadline a \<and> parse (strOf (effectiveDeadline a)) = None \<and> \<not> hasDeadline b \<longrightarrow>
      compareTenders parse binding Sort_deadline a b = Inr (Some (- 1)) \<and>
      compareTenders parse binding Sort_deadline b a = Inr (Some 1) \<and>
      filteredTenders parse [b, a] View_all [] ''all'' Sort_deadline = Inr [a, b]"
    by (auto simp: filteredTenders_def getFilteredTenders_def categoryFilter_def
                   searchFilter_def sortCompare_def compareTenders_def timeDiff_def
                   hasDeadline_def Let_def
             split: option.splits)
  have created: "parse (created_at a) = None \<longrightarrow>
      compareTenders parse binding Sort_newest a b = Inr None \<and>
      compareTenders parse binding Sort_newest b a = Inr None \<and>
      compareTenders parse binding Sort_oldest a b = Inr None \<and>
      compareTenders parse binding Sort_oldest b a = Inr None"
    by (auto simp: compareTenders_def timeDiff_def split: option.splits)
  show ?thesis
    using total tie before created by blast
qed

theorem unparseable_date_is_a_tie_witness:
  "hasDeadline tenderTBD \<and> sampleParse (strOf (effectiveDeadline tenderTBD)) = None
   \<and> hasDeadline tenderJan \<and> \<not> hasDeadline tenderNoDeadline
   \<and> sortCompare (compareTenders sampleParse None Sort_deadline) tenderTBD tenderJan = Inr 0
   \<and> sortCompare (compareTenders sampleParse None Sort_deadline) tenderJan tenderTBD = Inr 0
   \<and> compareTenders sampleParse None Sort_deadline tenderTBD tenderNoDeadline
       = Inr (Some (- 1))
   \<and> filteredTenders sampleParse [tenderNoDeadline, tenderTBD] View_all [] ''all''
        Sort_deadline = Inr [tenderTBD, tenderNoDeadline]
   \<and> (\<exists>out. filteredTenders sampleParse [tenderTBD, tenderJan] View_all [] ''all''
              Sort_newest = Inr out)"
proof -
  have tbd: "effectiveDeadline tenderTBD = Some ''TBD''"
    and jan: "effectiveDeadline tenderJan = Some ''2024-01-01''"
    and nodl: "effectiveDeadline tenderNoDeadline = None"
    by (simp_all add: sample_defs effectiveDeadline_def truthyStr_def)
  have has: "hasDeadline tenderTBD" "hasDeadline tenderJan" "\<not> hasDeadline tenderNoDeadline"
    by (simp_all add: hasDeadline_def tbd jan nodl truthyStr_def)
  have nan: "sampleParse (strOf (effectiveDeadline tenderTBD)) = None"
    by (simp add: tbd strOf_def sampleParse_def)
  have sb: "Sort_newest \<noteq> Sort_urgent"
    by simp
  show ?thesis
    using has nan sb
      unparseable_date_is_a_tie [of Sort_newest sampleParse "[tenderTBD, tenderJan]"
        View_all "[]" "''all''" tenderTBD tenderJan None]
      unparseable_date_is_a_tie [of Sort_newest sampleParse "[tenderTBD, tenderJan]"
        View_all "[]" "''all''" tenderTBD tenderNoDeadline None]
    by blast
qed

section \<open>The detail loader\<close>

lemma step_response:
  assumes "isResponse e" and "step w e = Some w'"
  shows "isModalOpen w' = isModalOpen w \<and> selectedTender w' = selectedTender w
         \<and> \<not> loadingDetails w'"
  using assms
  by (cases e) (auto simp: isResponse_def resolved_def rejected_def split: if_splits)

lemma run_responses:
  assumes "\<forall>e\<in>set rs. isResponse e" and "run w rs = Some w'"
  shows "isModalOpen w' = isModalOpen w \<and> selectedTender w' = selectedTender w
         \<and> (\<not> loadingDetails w \<longrightarrow> \<not> loadingDetails w')"
  using assms
proof (induction rs arbitrary: w)
  case Nil
  then show ?case by simp
next
  case (Cons e rs)
  from Cons.prems obtain w1 where s: "step w e = Some w1" and r: "run w1 rs = Some w'"
    by (auto split: option.splits)
  have e: "isResponse e" using Cons.prems by simp
  have "isModalOpen w' = isModalOpen w1 \<and> selectedTender w' = selectedTender w1
         \<and> (\<not> loadingDetails w1 \<longrightarrow> \<not> loadingDetails w')"
    using Cons.IH [OF _ r] Cons.prems by simp
  with step_response [OF e s] show ?case by simp
qed

text \<open>
  Claim C1, as stated, at a concrete input. A tender is opened, the view is closed
  while the request is outstanding, and then the response arrives. After closing,
  \<open>detailedTender\<close> is reset; the late response overwrites it with the fetched record.
\<close>

theorem late_response_overwrites_closed_view:
  "map_option detailedTender (run initial [OpenModal summaryA, CloseModal]) = Some None
   \<and> map_option detailedTender
        (run initial [OpenModal summaryA, CloseModal, Resolved 0 detailA])
       = Some (Some detailA)"
  by (simp add: loader_defs)

text \<open>
  Claim C1, amended. After \<open>closeModal\<close>, responses that arrive later (any number
  of them, for any outstanding requests) do not reopen the view: the modal stays
  closed and renders nothing, no tender is selected and the loading flag stays
  cleared. The displayed record does not stay reset: a late response overwrites
  \<open>detailedTender\<close> with the record it delivers, and a late rejection overwrites it
  with the summary tender of its request.
\<close>

theorem late_response_after_close:
  "((\<forall>e\<in>set rs. isResponse e) \<and> run (closeModal w) rs = Some w' \<longrightarrow>
      \<not> isModalOpen w' \<and> selectedTender w' = None \<and> \<not> loadingDetails w'
      \<and> modalView w' = Hidden)
   \<and> (i < length (pending w) \<longrightarrow>
        map_option detailedTender (step (closeModal w) (Resolved i d)) = Some (Some d)
        \<and> map_option detailedTender (step (closeModal w) (Rejected i))
            = Some (Some (pending w ! i)))"
proof -
  have closed: "\<not> isModalOpen w' \<and> selectedTender w' = None \<and> \<not> loadingDetails w'
      \<and> modalView w' = Hidden"
    if rs: "\<forall>e\<in>set rs. isResponse e" and r: "run (closeModal w) rs = Some w'"
  proof -
    have "isModalOpen w' = isModalOpen (closeModal w)
          \<and> selectedTender w' = selectedTender (closeModal w)
          \<and> (\<not> loadingDetails (closeModal w) \<longrightarrow> \<not> loadingDetails w')"
      using rs r by (rule run_responses)
    then show ?thesis
      by (simp add: closeModal_def modalView_def)
  qed
  have late: "map_option detailedTender (step (closeModal w) (Resolved i d)) = Some (Some d)
        \<and> map_option detailedTender (step (closeModal w) (Rejected i))
            = Some (Some (pending w ! i))"
    if "i < length (pending w)"
    using that by (simp add: closeModal_def resolved_def rejected_def)
  show ?thesis
    using closed late by blast
qed

theorem late_response_after_close_witness:
  "isResponse (Resolved 0 detailA)
   \<and> run (closeModal (openModal summaryA initial)) [Resolved 0 detailA]
       = Some (resolved 0 detailA (closeModal (openModal summaryA initial)))
   \<and> modalView (resolved 0 detailA (closeModal (openModal summaryA initial))) = Hidden
   \<and> (0::nat) < length (pending (openModal summaryA initial))
   \<and> map_option detailedTender
        (step (closeModal (openModal summaryA initial)) (Resolved 0 detailA))
       = Some (Some detailA)"
proof -
  have rs: "\<forall>e\<in>set [Resolved 0 detailA]. isResponse e"
    by (simp add: isResponse_def)
  have len: "(0::nat) < length (pending (openModal summaryA initial))"
    by (simp add: openModal_def initial_def)
  have r: "run (closeModal (openModal summaryA initial)) [Resolved 0 detailA]
       = Some (resolved 0 detailA (closeModal (openModal summaryA initial)))"
    by (simp add: openModal_def closeModal_def initial_def)
  have one: "isResponse (Resolved 0 detailA)"
    by (simp add: isResponse_def)
  show ?thesis
    using rs len r one
      late_response_after_close [of "[Resolved 0 detailA]" "openModal summaryA initial"
        "resolved 0 detailA (closeModal (openModal summaryA initial))" 0 detailA]
    by blast
qed

text \<open>
  Claim C2, as stated, at a concrete input. Tender A is opened and closed, tender B
  is opened while the request for A is outstanding, the response for B arrives, and
  then the response for A. Tender B is selected, but the record displayed in the
  end is A's.
\<close>

theorem superseded_response_is_displayed:
  "map_option (\<lambda>w. (selectedTender w, detailedTender w, modalView w))
     (run initial [OpenModal summaryA, CloseModal, OpenModal summaryB,
                   Resolved 1 detailB, Resolved 0 detailA])
     = Some (Some summaryB, Some detailA, Details detailA)
   \<and> detailA \<noteq> detailB"
  by (simp add: loader_defs sample_defs)

text \<open>
  Claim C2, amended. Requests are not told apart: the response of any outstanding
  request, whenever it arrives, overwrites the displayed detail record with the
  record it delivers and clears the loading flag, and leaves the selection as it is.
  The record displayed at the end is therefore the one of the response that arrived
  last. When a second tender is selected while the first request is outstanding and
  the two responses arrive in the order of the requests, that record is the one of
  the most recent selection.
\<close>

theorem last_response_wins:
  "(i < length (pending w) \<longrightarrow>
      (\<exists>w'. step w (Resolved i d) = Some w' \<and> detailedTender w' = Some d
            \<and> \<not> loadingDetails w' \<and> selectedTender w' = selectedTender w
            \<and> isModalOpen w' = isModalOpen w))
   \<and> (\<exists>w'. run w [OpenModal a, OpenModal b, Resolved (length (pending w)) da,
                   Resolved (length (pending w)) db] = Some w'
            \<and> selectedTender w' = Some b \<and> detailedTender w' = Some db
            \<and> modalView w' = Details db \<and> pending w' = pending w)"
  by (simp add: loader_defs)

theorem last_response_wins_witness:
  "(0::nat) < length (pending (openModal summaryB (openModal summaryA initial)))
   \<and> (\<exists>w'. step (openModal summaryB (openModal summaryA initial)) (Resolved 0 detailA) = Some w'
            \<and> detailedTender w' = Some detailA \<and> selectedTender w' = Some summaryB)
   \<and> (\<exists>w'. run initial [OpenModal summaryA, OpenModal summaryB, Resolved 0 detailA,
                   Resolved 0 detailB] = Some w'
            \<and> selectedTender w' = Some summaryB \<and> detailedTender w' = Some detailB
            \<and> modalView w' = Details detailB)"
proof -
  have len: "(0::nat) < length (pending (openModal summaryB (openModal summaryA initial)))"
    by (simp add: openModal_def initial_def)
  have sel: "selectedTender (openModal summaryB (openModal summaryA initial)) = Some summaryB"
    by (simp add: openModal_def)
  have p0: "length (pending initial) = 0"
    by (simp add: initial_def)
  show ?thesis
    using len sel
      last_response_wins [of 0 "openModal summaryB (openModal summaryA initial)" detailA]
      last_response_wins [of _ initial _ summaryA summaryB detailA detailB]
    unfolding p0 by metis
qed

text \<open>
  Claim C8. When the detail request of a selected tender rejects, nothing else
  having happened in between, the loader ends with the summary tender it was opened
  with as the displayed record and with the loading flag cleared; the modal is still
  open on that tender and its content area shows the detail sections of the summary
  (not an error screen: the component has none). The failure is written to the
  console, by \<open>apiRequest\<close> and by \<open>openModal\<close>, and changes nothing else. Until the rejection the content area shows the
  spinner.
\<close>

theorem rejected_fetch_falls_back:
  "(\<exists>w'. run w [OpenModal t, Rejected (length (pending w))] = Some w'
        \<and> detailedTender w' = Some t \<and> \<not> loadingDetails w' \<and> isModalOpen w'
        \<and> selectedTender w' = Some t \<and> modalView w' = Details t
        \<and> console w' = console w @ [ApiRequestFailed (tender_id t), FailedToLoadDetails]
        \<and> pending w' = pending w)
   \<and> modalView (openModal t w) = Spinner
   \<and> selectedTender (openModal t w) = Some t"
  by (simp add: loader_defs)

text \<open>Scenario C: tender 5 is selected and its request rejects.\<close>

theorem rejected_fetch_falls_back_witness:
  "map_option (\<lambda>w. (modalView w, loadingDetails w, console w))
     (run initial [OpenModal summaryA, Rejected 0])
     = Some (Details summaryA, False, [ApiRequestFailed 5, FailedToLoadDetails])
   \<and> tender_id summaryA = 5"
proof -
  have "length (pending initial) = 0"
    by (simp add: initial_def)
  moreover have "console initial = []"
    by (simp add: initial_def)
  moreover have "tender_id summaryA = 5"
    by (simp add: summaryA_def sampleTender_def)
  ultimately show ?thesis
    using rejected_fetch_falls_back [of initial summaryA] by auto
qed

section \<open>The contact normaliser\<close>

text \<open>
  Claim C7, as stated, at a concrete input. The string \<open>42\<close> is not structured
  data, so the claim has the normaliser return the object whose only property is
  \<open>organization\<close>, holding \<open>42\<close>. \<open>JSON.parse\<close> accepts the string, and the normaliser
  returns the number; the modal then reads no organisation from it. On the string
  \<open>null\<close> the normaliser returns \<open>null\<close>, on which reading a property throws.
\<close>

theorem parsed_primitive_is_returned:
  "parseContactInfo sampleJsonParse (JStr ''42'') = Inr (JNum 42)
   \<and> parseContactInfo sampleJsonParse (JStr ''42'')
       \<noteq> Inr (JObj [(''organization'', JStr ''42'')])
   \<and> readField (JNum 42) Organization = Inr JUndefined
   \<and> parseContactInfo sampleJsonParse (JStr ''null'') = Inr JNull
   \<and> readField JNull Organization = Inl TypeError"
  by (simp add: sampleJsonParse_def jsonParseFrom_def jsonWhitespace_def jsonStart_def)

text \<open>
  Claim C7, amended. \<open>parseContactInfo\<close> returns a value on every input and never
  throws. On a string that \<open>JSON.parse\<close> rejects it returns the object whose only
  property is \<open>organization\<close>, holding the raw string, so that of the five contact
  fields only \<open>organization\<close> is set; \<open>Ministry of Finance\<close> is such a string, whatever
  the JSON parser does on well-started texts. On a string that \<open>JSON.parse\<close> accepts
  it returns the parsed value as it is, whether or not that value is a structure.
  On an absent input (\<open>undefined\<close> or \<open>null\<close>) it returns the empty object, each of
  whose five contact fields reads as \<open>undefined\<close>.
\<close>

theorem parseContactInfo_contract:
  "(jsonParse s = Inl e \<longrightarrow>
      parseContactInfo jsonParse (JStr s) = Inr (JObj [(''organization'', JStr s)]))
   \<and> parseContactInfo (jsonParseFrom rest) (JStr ''Ministry of Finance'')
       = Inr (JObj [(''organization'', JStr ''Ministry of Finance'')])
   \<and> (jsonParse s = Inr parsed \<longrightarrow> parseContactInfo jsonParse (JStr s) = Inr parsed)
   \<and> (\<exists>v. parseContactInfo jsonParse x = Inr v)
   \<and> parseContactInfo jsonParse JUndefined = Inr (JObj [])
   \<and> parseContactInfo jsonParse JNull = Inr (JObj [])
   \<and> readField (JObj []) f = Inr JUndefined
   \<and> readField (JObj [(''organization'', JStr s)]) Organization = Inr (JStr s)
   \<and> (f \<noteq> Organization \<longrightarrow>
        readField (JObj [(''organization'', JStr s)]) f = Inr JUndefined)"
proof -
  have total: "\<exists>v. parseContactInfo jsonParse x = Inr v"
    by (cases x) (auto split: sum.splits)
  have mof: "parseContactInfo (jsonParseFrom rest) (JStr ''Ministry of Finance'')
       = Inr (JObj [(''organization'', JStr ''Ministry of Finance'')])"
    by (simp add: jsonParseFrom_def jsonWhitespace_def jsonStart_def)
  have other: "f \<noteq> Organization \<longrightarrow>
        readField (JObj [(''organization'', JStr s)]) f = Inr JUndefined"
    by (cases f) simp_all
  show ?thesis
    using total mof other by simp
qed

text \<open>On the texts of the scenarios: \<open>Ministry of Finance\<close> is rejected and kept as
  the organisation; \<open>true\<close> is accepted and returned as the boolean.\<close>

theorem parseContactInfo_contract_witness:
  "sampleJsonParse ''Ministry of Finance'' = Inl SyntaxError
   \<and> parseContactInfo sampleJsonParse (JStr ''Ministry of Finance'')
       = Inr (JObj [(''organization'', JStr ''Ministry of Finance'')])
   \<and> sampleJsonParse ''true'' = Inr (JBool True)
   \<and> parseContactInfo sampleJsonParse (JStr ''true'') = Inr (JBool True)
   \<and> readField (JObj [(''organization'', JStr ''Ministry of Finance'')]) Phone
       = Inr JUndefined"
proof -
  have rej: "sampleJsonParse ''Ministry of Finance'' = Inl SyntaxError"
    by (simp add: sampleJsonParse_def jsonParseFrom_def jsonWhitespace_def jsonStart_def)
  have acc: "sampleJsonParse ''true'' = Inr (JBool True)"
    by (simp add: sampleJsonParse_def jsonParseFrom_def jsonWhitespace_def jsonStart_def)
  have ne: "Phone \<noteq> Organization"
    by simp
  show ?thesis
    using rej acc ne
      parseContactInfo_contract [of sampleJsonParse "''Ministry of Finance''" SyntaxError
        _ _ _ Phone]
      parseContactInfo_contract [of sampleJsonParse "''true''" _ _ "JBool True"]
    by blast
qed

end
